theory Spec2Isabelle
  imports Complex_Main
begin

section \<open>Voice evaluation microservice: values, exceptions and numbers\<close>

text \<open>
  Python exceptions are values. The constructors are the exception classes the
  source raises or catches: \<open>httpx.ReadError\<close>, \<open>httpx.TimeoutException\<close>,
  \<open>KeyError\<close>, \<open>ZeroDivisionError\<close>, and \<open>Exception\<close> for a plain
  \<open>Exception(message)\<close> as well as any other subclass the transport may raise.
  A handler \<open>except Exception\<close> matches every constructor.
\<close>

datatype exn =
    ReadError string
  | TimeoutException string
  | Exception string
  | KeyError string
  | ZeroDivisionError string

text \<open>\<open>str(e)\<close>: the message; a \<open>KeyError\<close> prints the quoted key.\<close>

fun py_str :: "exn \<Rightarrow> string" where
  "py_str (ReadError m) = m"
| "py_str (TimeoutException m) = m"
| "py_str (Exception m) = m"
| "py_str (KeyError k) = [CHR 0x27] @ k @ [CHR 0x27]"
| "py_str (ZeroDivisionError m) = m"

text \<open>
  Python floats are modelled as exact real numbers: sums, quotients and comparisons
  are the mathematical ones, without the rounding, overflow and underflow of IEEE
  doubles. \<open>round(x)\<close> rounds to the nearest integer, a tie going to the even
  neighbour; \<open>round(x, n)\<close> does the same at the \<open>n\<close>-th decimal.
\<close>

definition py_round :: "real \<Rightarrow> int" where
  "py_round x =
     (let f = \<lfloor>x\<rfloor>; d = x - of_int f
      in if d < 1 / 2 then f
         else if 1 / 2 < d then f + 1
         else if even f then f else f + 1)"

definition py_round_ndigits :: "real \<Rightarrow> nat \<Rightarrow> real" where
  "py_round_ndigits x n = of_int (py_round (x * 10 ^ n)) / 10 ^ n"

text \<open>\<open>a / b\<close> on floats raises \<open>ZeroDivisionError\<close> when \<open>b\<close> is zero.\<close>

definition py_truediv :: "real \<Rightarrow> real \<Rightarrow> exn + real" where
  "py_truediv a b =
     (if b = 0 then Inl (ZeroDivisionError ''float division by zero'') else Inr (a / b))"

subsection \<open>Configuration (config.py)\<close>

definition PRONUNCIATION_THRESHOLD :: real where "PRONUNCIATION_THRESHOLD = 85 / 100"
definition SLOW_WPM_THRESHOLD :: int where "SLOW_WPM_THRESHOLD = 90"
definition FAST_WPM_THRESHOLD :: int where "FAST_WPM_THRESHOLD = 150"
definition PAUSE_THRESHOLD :: real where "PAUSE_THRESHOLD = 5 / 10"

subsection \<open>Data model (models.py)\<close>

text \<open>
  The canonical word dictionary \<open>{"word", "start", "end", "confidence"}\<close>; the key
  \<open>end\<close> is the field \<open>end_sec\<close>, since \<open>end\<close> is reserved.
\<close>

record word_metadata =
  word :: string
  start :: real
  end_sec :: real
  confidence :: real

record transcription_response =
  transcript :: string
  words :: "word_metadata list"
  audio_duration_sec :: real

record mispronunced_word =
  mw_word :: string
  mw_start :: real
  mw_confidence :: real

record pronunciation_response =
  pronunciation_score :: int
  mispronounced_words :: "mispronunced_word list"

record pacing_response =
  pacing_wpm :: int
  pacing_feedback :: string

record pause_response =
  pause_count :: int
  total_pause_time_sec :: real
  pause_feedback :: string

section \<open>Analysis stages\<close>

subsection \<open>Pauses (services/pause\_analysis.py)\<close>

text \<open>
  The loop \<open>for i in range(1, len(words))\<close> over the list of indices, with the
  list \<open>pauses\<close> as accumulator. Every index it reads is within the list.
\<close>

fun collect_pauses :: "word_metadata list \<Rightarrow> nat list \<Rightarrow> real list \<Rightarrow> real list" where
  "collect_pauses ws [] pauses = pauses"
| "collect_pauses ws (i # rest) pauses =
     (let pause_duration = start (ws ! i) - end_sec (ws ! (i - 1))
      in if pause_duration > PAUSE_THRESHOLD
         then collect_pauses ws rest (pauses @ [pause_duration])
         else collect_pauses ws rest pauses)"

definition pause_feedback_of :: "int \<Rightarrow> string" where
  "pause_feedback_of n =
     (if n = 0 then ''Great! Your speech flows smoothly without long pauses.''
      else if n \<le> 2 then ''Good fluency with minimal pauses.''
      else if n \<le> 4 then ''Try to reduce long pauses to improve fluency.''
      else ''Your speech has many long pauses. Practice speaking more continuously.'')"

definition analyze_pauses :: "word_metadata list \<Rightarrow> pause_response" where
  "analyze_pauses ws =
     (if length ws < 2
      then \<lparr>pause_count = 0, total_pause_time_sec = 0,
            pause_feedback = ''Insufficient data for pause analysis.''\<rparr>
      else
        let pauses = collect_pauses ws [1..<length ws] [];
            n = int (length pauses);
            total_pause_time = sum_list pauses
        in \<lparr>pause_count = n,
            total_pause_time_sec = py_round_ndigits total_pause_time 2,
            pause_feedback = pause_feedback_of n\<rparr>)"

subsection \<open>Pronunciation (services/pronunciation.py)\<close>

fun collect_mispronounced ::
  "word_metadata list \<Rightarrow> mispronunced_word list \<Rightarrow> mispronunced_word list" where
  "collect_mispronounced [] acc = acc"
| "collect_mispronounced (w # rest) acc =
     (if confidence w < PRONUNCIATION_THRESHOLD
      then collect_mispronounced rest
             (acc @ [\<lparr>mw_word = word w, mw_start = start w, mw_confidence = confidence w\<rparr>])
      else collect_mispronounced rest acc)"

definition analyze_pronunciation :: "word_metadata list \<Rightarrow> exn + pronunciation_response" where
  "analyze_pronunciation ws =
     (if ws = []
      then Inr \<lparr>pronunciation_score = 0, mispronounced_words = []\<rparr>
      else
        let total_confidence = sum_list (map confidence ws)
        in case py_truediv total_confidence (of_nat (length ws)) of
             Inl e \<Rightarrow> Inl e
           | Inr avg_confidence \<Rightarrow>
               Inr \<lparr>pronunciation_score = py_round (avg_confidence * 100),
                    mispronounced_words = collect_mispronounced ws []\<rparr>)"

subsection \<open>Pacing (services/pacing.py)\<close>

definition pacing_feedback_of :: "int \<Rightarrow> string" where
  "pacing_feedback_of wpm =
     (if wpm < SLOW_WPM_THRESHOLD
      then ''Your speaking pace is too slow. Try to speak a bit faster.''
      else if wpm > FAST_WPM_THRESHOLD
      then ''Your speaking pace is too fast. Try to slow down a bit.''
      else ''Your speaking pace is appropriate.'')"

definition analyze_pacing :: "word_metadata list \<Rightarrow> real \<Rightarrow> exn + pacing_response" where
  "analyze_pacing ws audio_duration =
     (if ws = [] \<or> audio_duration = 0
      then Inr \<lparr>pacing_wpm = 0, pacing_feedback = ''Unable to calculate pacing.''\<rparr>
      else
        let total_words = length ws;
            duration_minutes = audio_duration / 60
        in case py_truediv (of_nat total_words) duration_minutes of
             Inl e \<Rightarrow> Inl e
           | Inr q \<Rightarrow>
               let wpm = py_round q
               in Inr \<lparr>pacing_wpm = wpm, pacing_feedback = pacing_feedback_of wpm\<rparr>)"

section \<open>The outside world\<close>

text \<open>
  What the service does to its surroundings is a trace of events, in the order they
  happen: the multipart POST of an upload (file name and content type of the file
  part), a sleep of so many seconds, the POST submitting a transcription, a GET polling
  it, a call of the generative model and the removal of a file. The lines written to
  the log that matter here are kept apart, in \<open>logged\<close>. \<open>files\<close> is the set of paths
  that exist on disk.
\<close>

datatype event =
    UploadPost string string
  | Sleep nat
  | SubmitPost "string option"
  | PollGet string
  | GenerateContent string
  | Remove string

record world =
  files :: "string set"
  trace :: "event list"
  logged :: "string list"

text \<open>
  An HTTP response: the status code, the body as text (\<open>response.content\<close> is empty
  exactly when the text is), and what \<open>response.json()\<close> gives: the decoded body,
  or the message of the decoding error it raises.
\<close>

record 'a http_response =
  status_code :: nat
  resp_text :: string
  resp_json :: "string + 'a"

text \<open>
  The provider's transcript object, read as the code reads it: a key is absent
  (\<open>None\<close>) or has a value of the expected type. \<open>pw_\<close> fields are the keys of one
  word (\<open>text\<close>, \<open>start\<close>, \<open>end\<close>, \<open>confidence\<close>), \<open>pr_\<close> fields the keys of the
  result (\<open>status\<close>, \<open>error\<close>, \<open>text\<close>, \<open>words\<close>, \<open>audio_duration\<close>).
\<close>

record provider_word =
  pw_text :: "string option"
  pw_start :: "real option"
  pw_end :: "real option"
  pw_confidence :: "real option"

record provider_result =
  pr_status :: "string option"
  pr_error :: "string option"
  pr_text :: "string option"
  pr_words :: "provider_word list option"
  pr_audio_duration :: "real option"

text \<open>
  The environment of one job: the API key, and what the remote parties answer. A
  request either raises (\<open>Inl\<close>) or returns a response. \<open>upload_reply k\<close> answers the
  upload of attempt \<open>k\<close>, \<open>poll_reply k\<close> the status request made when the attempt
  counter is \<open>k\<close>. \<open>generate_reply\<close> answers \<open>generate_content(prompt)\<close>: the call
  raises, or returns a response whose \<open>text\<close> attribute raises or is the feedback.
  \<open>str_words\<close> is Python's rendering of the list of mispronounced words inside the
  prompt, which is not modelled.
\<close>

record env =
  api_key :: string
  upload_reply :: "nat \<Rightarrow> exn + string option http_response"
  submit_reply :: "exn + string option http_response"
  poll_reply :: "nat \<Rightarrow> exn + provider_result http_response"
  generate_reply :: "string \<Rightarrow> exn + (exn + string)"
  str_words :: "mispronunced_word list \<Rightarrow> string"

subsection \<open>Strings and paths of the Python library\<close>

fun str_nat :: "nat \<Rightarrow> string" where
  "str_nat n =
     (if n < 10 then [char_of (48 + n)]
      else str_nat (n div 10) @ [char_of (48 + n mod 10)])"

definition str_int :: "int \<Rightarrow> string" where
  "str_int i = (if i < 0 then CHR ''-'' # str_nat (nat (- i)) else str_nat (nat i))"

text \<open>\<open>sub in s\<close> on strings.\<close>

fun starts_with :: "string \<Rightarrow> string \<Rightarrow> bool" where
  "starts_with [] s = True"
| "starts_with (c # cs) [] = False"
| "starts_with (c # cs) (d # ds) = (c = d \<and> starts_with cs ds)"

fun contains_str :: "string \<Rightarrow> string \<Rightarrow> bool" where
  "contains_str sub [] = (sub = [])"
| "contains_str sub (c # cs) = (starts_with sub (c # cs) \<or> contains_str sub cs)"

text \<open>\<open>str.lower()\<close>, on ASCII letters.\<close>

definition py_lower :: "string \<Rightarrow> string" where
  "py_lower s =
     map (\<lambda>c. let n = (of_char c :: nat)
               in if 65 \<le> n \<and> n \<le> 90 then char_of (n + 32) else c) s"

text \<open>
  \<open>os.path.basename\<close>: what follows the last slash. \<open>os.path.splitext(p)[1]\<close>: the
  part of the base name from its last dot on, unless only dots come before that dot.
\<close>

definition basename :: "string \<Rightarrow> string" where
  "basename p = rev (takeWhile (\<lambda>c. c \<noteq> CHR ''/'') (rev p))"

definition splitext_ext :: "string \<Rightarrow> string" where
  "splitext_ext p =
     (let name = basename p;
          ext = rev (takeWhile (\<lambda>c. c \<noteq> CHR ''.'') (rev name));
          stem = take (length name - length ext - 1) name
      in if CHR ''.'' \<in> set name \<and> dropWhile (\<lambda>c. c = CHR ''.'') stem \<noteq> []
         then CHR ''.'' # ext else [])"

section \<open>Transcription service (services/transcription.py)\<close>

definition max_retries :: nat where "max_retries = 3"

definition audio_mime_types :: "string \<rightharpoonup> string" where
  "audio_mime_types =
     map_of [(''.mp3'', ''audio/mpeg''),
             (''.wav'', ''audio/wav''),
             (''.flac'', ''audio/flac''),
             (''.ogg'', ''audio/ogg''),
             (''.m4a'', ''audio/mp4'')]"

subsection \<open>upload\_file\<close>

text \<open>
  The checks on the response of the upload (status code, then the \<open>upload_url\<close> of the
  decoded body, which must be neither absent nor empty).
\<close>

definition check_upload_response :: "string option http_response \<Rightarrow> exn + string" where
  "check_upload_response response =
     (if status_code response = 401 then Inl (Exception ''Invalid AssemblyAI API key'')
      else if status_code response = 413 then Inl (Exception ''File too large for AssemblyAI'')
      else if status_code response = 429
      then Inl (Exception ''Rate limit exceeded - please try again later'')
      else if status_code response \<noteq> 200 \<and> status_code response \<noteq> 201
      then Inl (Exception (''Upload failed: '' @ str_nat (status_code response) @ '' - '' @
                 (if resp_text response \<noteq> [] then resp_text response else ''Unknown error'')))
      else case resp_json response of
             Inl m \<Rightarrow> Inl (Exception m)
           | Inr None \<Rightarrow> Inl (Exception ''No upload URL returned from AssemblyAI'')
           | Inr (Some upload_url) \<Rightarrow>
               if upload_url = [] then Inl (Exception ''No upload URL returned from AssemblyAI'')
               else Inr upload_url)"

text \<open>
  The body of the \<open>try\<close>. The effective media type is looked up in the table and, when
  it differs from the caller's guess, written to the log; the file part of the request
  is built from \<open>mime_type\<close>.
\<close>

definition upload_file_try ::
  "env \<Rightarrow> string \<Rightarrow> string \<Rightarrow> nat \<Rightarrow> world \<Rightarrow> (exn + string) \<times> world" where
  "upload_file_try e file_path mime_type k w =
     (if file_path \<notin> files w then (Inl (Exception (''File not found: '' @ file_path)), w)
      else
        let file_extension = py_lower (splitext_ext file_path);
            effective_mime_type =
              (case audio_mime_types file_extension of None \<Rightarrow> mime_type | Some m \<Rightarrow> m);
            w1 = (if effective_mime_type \<noteq> mime_type
                  then w\<lparr>logged := logged w @
                         [''Overriding guessed MIME type '' @ mime_type @ '' with '' @
                          effective_mime_type @ '' for extension '' @ file_extension]\<rparr>
                  else w);
            w2 = w1\<lparr>trace := trace w1 @ [UploadPost (basename file_path) mime_type]\<rparr>
        in case upload_reply e k of
             Inl err \<Rightarrow> (Inl err, w2)
           | Inr response \<Rightarrow> (check_upload_response response, w2))"

text \<open>The three handlers of the \<open>try\<close>, in their order.\<close>

fun upload_file_except :: "exn + string \<Rightarrow> exn + string" where
  "upload_file_except (Inr upload_url) = Inr upload_url"
| "upload_file_except (Inl (ReadError m)) = Inl (ReadError m)"
| "upload_file_except (Inl (TimeoutException m)) =
     Inl (Exception ''Upload timeout - try with a smaller file or check your connection'')"
| "upload_file_except (Inl err) = Inl (Exception (''File upload error: '' @ py_str err))"

definition upload_file ::
  "env \<Rightarrow> string \<Rightarrow> string \<Rightarrow> nat \<Rightarrow> world \<Rightarrow> (exn + string) \<times> world" where
  "upload_file e file_path mime_type k w =
     (if api_key e = [] then (Inl (Exception ''AssemblyAI API key not configured''), w)
      else case upload_file_try e file_path mime_type k w of
             (r, w') \<Rightarrow> (upload_file_except r, w'))"

subsection \<open>upload\_file\_with\_retry\<close>

text \<open>
  \<open>for attempt in range(self.max_retries)\<close>, over the list of attempts. The result
  is \<open>Some\<close> of the upload URL; a loop that ends without returning gives Python's
  \<open>None\<close>.
\<close>

fun retry_loop ::
  "env \<Rightarrow> string \<Rightarrow> string \<Rightarrow> nat list \<Rightarrow> world \<Rightarrow> (exn + string option) \<times> world" where
  "retry_loop e file_path mime_type [] w = (Inr None, w)"
| "retry_loop e file_path mime_type (attempt # rest) w =
     (case upload_file e file_path mime_type attempt w of
        (Inr upload_url, w') \<Rightarrow> (Inr (Some upload_url), w')
      | (Inl (ReadError m), w') \<Rightarrow>
          if attempt = max_retries - 1
          then (Inl (Exception (''File upload failed after '' @ str_nat max_retries @
                       '' attempts: '' @ m)), w')
          else retry_loop e file_path mime_type rest
                 (w'\<lparr>trace := trace w' @ [Sleep (2 ^ attempt)]\<rparr>)
      | (Inl err, w') \<Rightarrow> (Inl err, w'))"

definition upload_file_with_retry ::
  "env \<Rightarrow> string \<Rightarrow> string \<Rightarrow> world \<Rightarrow> (exn + string option) \<times> world" where
  "upload_file_with_retry e file_path mime_type w =
     retry_loop e file_path mime_type [0..<max_retries] w"

subsection \<open>\_poll\_transcript\<close>

definition max_attempts :: nat where "max_attempts = 60"

datatype poll_step = Completed provider_result | Pending | Raised exn

text \<open>The body of the \<open>try\<close> inside the loop, on the reply to one status request.\<close>

definition poll_try :: "exn + provider_result http_response \<Rightarrow> poll_step" where
  "poll_try reply =
     (case reply of
        Inl err \<Rightarrow> Raised err
      | Inr response \<Rightarrow>
          if status_code response \<noteq> 200
          then Raised (Exception (''Polling failed: '' @ str_nat (status_code response) @
                         '' - '' @ resp_text response))
          else case resp_json response of
                 Inl m \<Rightarrow> Raised (Exception m)
               | Inr result \<Rightarrow>
                   (case pr_status result of
                      None \<Rightarrow> Raised (Exception ''Unknown status: None'')
                    | Some status \<Rightarrow>
                        if status = ''completed'' then Completed result
                        else if status = ''error''
                        then Raised (Exception (''Transcription failed: '' @
                               (case pr_error result of
                                  None \<Rightarrow> ''Unknown transcription error''
                                | Some error_msg \<Rightarrow> error_msg)))
                        else if status = ''queued'' \<or> status = ''processing'' then Pending
                        else Raised (Exception (''Unknown status: '' @ status))))"

text \<open>The two handlers of that \<open>try\<close>.\<close>

fun poll_except :: "poll_step \<Rightarrow> poll_step" where
  "poll_except (Raised (TimeoutException m)) =
     Raised (Exception ''Polling timeout - transcription taking too long'')"
| "poll_except (Raised err) =
     (if contains_str ''Transcription failed:'' (py_str err) then Raised err
      else Raised (Exception (''Polling error: '' @ py_str err)))"
| "poll_except step = step"

text \<open>
  \<open>while attempt < max_attempts\<close>: one status request per iteration; a queued or
  processing transcript sleeps a second and counts one attempt.
\<close>

function poll_loop ::
  "env \<Rightarrow> string \<Rightarrow> nat \<Rightarrow> world \<Rightarrow> (exn + provider_result) \<times> world" where
  "poll_loop e transcript_id attempt w =
     (if max_attempts \<le> attempt
      then (Inl (Exception ''Transcription timeout - process took too long''), w)
      else
        case poll_except (poll_try (poll_reply e attempt)) of
          Completed result \<Rightarrow> (Inr result, w\<lparr>trace := trace w @ [PollGet transcript_id]\<rparr>)
        | Raised err \<Rightarrow> (Inl err, w\<lparr>trace := trace w @ [PollGet transcript_id]\<rparr>)
        | Pending \<Rightarrow>
            poll_loop e transcript_id (attempt + 1)
              (w\<lparr>trace := trace w @ [PollGet transcript_id, Sleep 1]\<rparr>))"
  by pat_completeness auto
termination
  by (relation "measure (\<lambda>(e, transcript_id, attempt, w). max_attempts - attempt)") auto

declare poll_loop.simps [simp del]

definition poll_transcript ::
  "env \<Rightarrow> string \<Rightarrow> world \<Rightarrow> (exn + provider_result) \<times> world" where
  "poll_transcript e transcript_id w = poll_loop e transcript_id 0 w"

subsection \<open>transcribe\_audio\<close>

definition transcribe_audio_try ::
  "env \<Rightarrow> string option \<Rightarrow> world \<Rightarrow> (exn + provider_result) \<times> world" where
  "transcribe_audio_try e audio_url w =
     (let w1 = w\<lparr>trace := trace w @ [SubmitPost audio_url]\<rparr>
      in case submit_reply e of
           Inl err \<Rightarrow> (Inl err, w1)
         | Inr response \<Rightarrow>
             if status_code response \<noteq> 200
             then (Inl (Exception (''Failed to submit transcription job: '' @
                          str_nat (status_code response) @ '' - '' @
                          (if resp_text response \<noteq> [] then resp_text response
                           else ''Unknown error''))), w1)
             else case resp_json response of
                    Inl m \<Rightarrow> (Inl (Exception m), w1)
                  | Inr None \<Rightarrow>
                      (Inl (Exception ''Failed to get transcript ID from submission response.''), w1)
                  | Inr (Some transcript_id) \<Rightarrow>
                      if transcript_id = []
                      then (Inl (Exception
                                  ''Failed to get transcript ID from submission response.''), w1)
                      else poll_transcript e transcript_id w1)"

fun transcribe_audio_except :: "exn + provider_result \<Rightarrow> exn + provider_result" where
  "transcribe_audio_except (Inr result) = Inr result"
| "transcribe_audio_except (Inl (TimeoutException m)) =
     Inl (Exception ''Timeout when submitting transcription job.'')"
| "transcribe_audio_except (Inl err) =
     Inl (Exception (''Transcription process failed: '' @ py_str err))"

definition transcribe_audio ::
  "env \<Rightarrow> string option \<Rightarrow> world \<Rightarrow> (exn + provider_result) \<times> world" where
  "transcribe_audio e audio_url w =
     (if api_key e = [] then (Inl (Exception ''AssemblyAI API key not configured''), w)
      else case transcribe_audio_try e audio_url w of
             (r, w') \<Rightarrow> (transcribe_audio_except r, w'))"

subsection \<open>parse\_transcription\_result\<close>

text \<open>
  The loop over \<open>result.get("words", [])\<close>; a word without one of its keys raises
  \<open>KeyError\<close>, the keys being read in the order text, start, end, confidence.
\<close>

fun parse_words :: "provider_word list \<Rightarrow> word_metadata list \<Rightarrow> exn + word_metadata list" where
  "parse_words [] acc = Inr acc"
| "parse_words (word_data # rest) acc =
     (case pw_text word_data of
        None \<Rightarrow> Inl (KeyError ''text'')
      | Some t \<Rightarrow>
     (case pw_start word_data of
        None \<Rightarrow> Inl (KeyError ''start'')
      | Some s \<Rightarrow>
     (case pw_end word_data of
        None \<Rightarrow> Inl (KeyError ''end'')
      | Some en \<Rightarrow>
     (case pw_confidence word_data of
        None \<Rightarrow> Inl (KeyError ''confidence'')
      | Some c \<Rightarrow>
          parse_words rest
            (acc @ [\<lparr>word = t, start = s / 1000, end_sec = en / 1000, confidence = c\<rparr>])))))"

definition parse_transcription_result :: "provider_result \<Rightarrow> exn + transcription_response" where
  "parse_transcription_result result =
     (case parse_words (case pr_words result of None \<Rightarrow> [] | Some ws \<Rightarrow> ws) [] of
        Inl err \<Rightarrow> Inl err
      | Inr ws \<Rightarrow>
          (case pr_text result of
             None \<Rightarrow> Inl (KeyError ''text'')
           | Some t \<Rightarrow>
               Inr \<lparr>transcript = t, words = ws,
                    audio_duration_sec =
                      (case pr_audio_duration result of None \<Rightarrow> 0 | Some d \<Rightarrow> d) / 1000\<rparr>))"

section \<open>Feedback generator (services/feedback\_generator.py)\<close>

text \<open>
  The prompt is the template of the source, line by line, each line after a newline.
  The analysers' dictionaries have the keys \<open>mispronounced_words\<close>, \<open>pacing_wpm\<close> and
  \<open>pause_count\<close>; the other keys the template asks for are absent from them, so that
  \<open>get\<close> gives the default and the line reads \<open>N/A\<close>.
\<close>

definition feedback_prompt ::
  "env \<Rightarrow> pronunciation_response \<Rightarrow> pacing_response \<Rightarrow> pause_response \<Rightarrow> string" where
  "feedback_prompt e pronunciation pacing pauses =
     concat (map (\<lambda>l. CHR 0x0A # l)
       [''        Generate detailed, constructive, and encouraging feedback for a speaker based on the following analysis of their audio.'',
        ''        Focus on improving their public speaking skills.'',
        [],
        ''        **Pronunciation Analysis:**'',
        ''        - Mispronounced words: '' @ str_words e (mispronounced_words pronunciation),
        ''        - Overall pronunciation score: '' @ ''N/A'',
        [],
        ''        **Pacing Analysis:**'',
        ''        - Words per minute (WPM): '' @ str_int (pacing_wpm pacing) @
          ''  # No decimal for WPM, assuming integer'',
        ''        - Pacing assessment: '' @ ''N/A'',
        [],
        ''        **Pause Analysis:**'',
        ''        - Total pause duration: '' @ ''N/A'' @ '' seconds'',
        ''        - Average pause duration: '' @ ''N/A'' @ '' seconds'',
        ''        - Pause count: '' @ str_int (pause_count pauses) @
          ''  # Assuming integer, no decimal'',
        ''        - Longest pause duration: '' @ ''N/A'' @ '' seconds'',
        [],
        ''        **Instructions for Feedback:**'',
        ''        1. Start with a positive encouraging statement.'',
        ''        2. Provide specific feedback on pronunciation, pacing, and pauses.'',
        ''        3. For pronunciation, list specific words if mispronounced and suggest ways to improve.'',
        ''        4. For pacing, comment on the WPM and suggest if they need to speed up or slow down.'',
        ''        5. For pauses, suggest reducing long pauses or using them effectively.'',
        ''        6. End with a concluding encouraging remark.'',
        ''        7. Keep the feedback concise but informative, around 3-5 sentences.'',
        ''        ''])"

definition fallback_feedback :: string where
  "fallback_feedback =
     ''Could not generate detailed feedback at this moment. Please try again later.''"

text \<open>
  The \<open>try\<close> around the call of the model and the read of \<open>response.text\<close>; its
  handler \<open>except Exception\<close> returns the fixed string.
\<close>

definition generate_feedback ::
  "env \<Rightarrow> pronunciation_response \<Rightarrow> pacing_response \<Rightarrow> pause_response \<Rightarrow> world
     \<Rightarrow> string \<times> world" where
  "generate_feedback e pronunciation pacing pauses w =
     (let prompt = feedback_prompt e pronunciation pacing pauses;
          w1 = w\<lparr>trace := trace w @ [GenerateContent prompt]\<rparr>
      in case generate_reply e prompt of
           Inl err \<Rightarrow> (fallback_feedback, w1)
         | Inr response \<Rightarrow>
             (case response of
                Inl err \<Rightarrow> (fallback_feedback, w1)
              | Inr feedback \<Rightarrow> (feedback, w1)))"

section \<open>The background task (main.py)\<close>

record voice_evaluation_response =
  transcription :: transcription_response
  pronunciation :: pronunciation_response
  pacing :: pacing_response
  pauses :: pause_response
  text_feedback :: string

text \<open>The body of the \<open>try\<close> of \<open>process_audio_task\<close>: the stages in sequence.\<close>

definition process_audio_task_try ::
  "env \<Rightarrow> string \<Rightarrow> string \<Rightarrow> string \<Rightarrow> world
     \<Rightarrow> (exn + voice_evaluation_response) \<times> world" where
  "process_audio_task_try e file_path file_name mime_type w =
     (case upload_file_with_retry e file_path mime_type w of
        (Inl err, w1) \<Rightarrow> (Inl err, w1)
      | (Inr upload_url, w1) \<Rightarrow>
     (case transcribe_audio e upload_url w1 of
        (Inl err, w2) \<Rightarrow> (Inl err, w2)
      | (Inr transcription_result, w2) \<Rightarrow>
     (case parse_transcription_result transcription_result of
        Inl err \<Rightarrow> (Inl err, w2)
      | Inr parsed_result \<Rightarrow>
     (case analyze_pronunciation (words parsed_result) of
        Inl err \<Rightarrow> (Inl err, w2)
      | Inr pronunciation_result \<Rightarrow>
     (case analyze_pacing (words parsed_result) (audio_duration_sec parsed_result) of
        Inl err \<Rightarrow> (Inl err, w2)
      | Inr pacing_result \<Rightarrow>
          let pause_result = analyze_pauses (words parsed_result)
          in case generate_feedback e pronunciation_result pacing_result pause_result w2 of
               (feedback, w3) \<Rightarrow>
                 (Inr \<lparr>transcription = parsed_result,
                       pronunciation = pronunciation_result,
                       pacing = pacing_result,
                       pauses = pause_result,
                       text_feedback = feedback\<rparr>, w3))))))"

text \<open>
  The handler logs and raises the exception again; the \<open>finally\<close> clause runs on both
  exits: \<open>if os.path.exists(file_path): os.remove(file_path)\<close>.
\<close>

definition cleanup :: "string \<Rightarrow> world \<Rightarrow> world" where
  "cleanup file_path w =
     (if file_path \<in> files w
      then w\<lparr>files := files w - {file_path}, trace := trace w @ [Remove file_path]\<rparr>
      else w)"

definition process_audio_task ::
  "env \<Rightarrow> string \<Rightarrow> string \<Rightarrow> string \<Rightarrow> world
     \<Rightarrow> (exn + voice_evaluation_response) \<times> world" where
  "process_audio_task e file_path file_name mime_type w =
     (case process_audio_task_try e file_path file_name mime_type w of
        (Inl err, w') \<Rightarrow> (Inl err, cleanup file_path w')
      | (Inr response_data, w') \<Rightarrow> (Inr response_data, cleanup file_path w'))"

section \<open>Statements of the specification, in its own words\<close>

text \<open>
  The gap of the adjacent pair \<open>(i, i + 1)\<close>, the gaps of all pairs in the given
  order, and those that qualify as pauses.
\<close>

definition gap :: "word_metadata list \<Rightarrow> nat \<Rightarrow> real" where
  "gap ws i = start (ws ! (i + 1)) - end_sec (ws ! i)"

definition gaps :: "word_metadata list \<Rightarrow> real list" where
  "gaps ws = map (gap ws) [0..<length ws - 1]"

definition long_gaps :: "word_metadata list \<Rightarrow> real list" where
  "long_gaps ws = filter (\<lambda>g. 5 / 10 < g) (gaps ws)"



text \<open>
  The status requests of a trace, and the replies that leave a transcript pending: a
  response 200 whose status is queued or processing.
\<close>

fun is_poll :: "event \<Rightarrow> bool" where
  "is_poll (PollGet transcript_id) = True"
| "is_poll ev = False"

definition non_terminal :: "exn + provider_result http_response \<Rightarrow> bool" where
  "non_terminal reply =
     (case reply of
        Inl err \<Rightarrow> False
      | Inr r \<Rightarrow>
          status_code r = 200 \<and>
          (case resp_json r of
             Inl m \<Rightarrow> False
           | Inr result \<Rightarrow>
               pr_status result = Some ''queued'' \<or> pr_status result = Some ''processing''))"

section \<open>An example job\<close>

text \<open>
  One job on which the statements below are evaluated: a file \<open>uploads/a.wav\<close> on disk,
  a provider that accepts the upload and the submission and reports a completed
  transcript of two words, and a generative model that is unavailable.
\<close>

definition example_world :: world where
  "example_world = \<lparr>files = {''uploads/a.wav''}, trace = [], logged = []\<rparr>"

definition example_result :: provider_result where
  "example_result =
     \<lparr>pr_status = Some ''completed'', pr_error = None, pr_text = Some ''a b'',
      pr_words = Some [\<lparr>pw_text = Some ''a'', pw_start = Some 0, pw_end = Some 300,
                        pw_confidence = Some (9 / 10)\<rparr>,
                       \<lparr>pw_text = Some ''b'', pw_start = Some 900, pw_end = Some 1200,
                        pw_confidence = Some (6 / 10)\<rparr>],
      pr_audio_duration = Some 1200\<rparr>"

definition example_env :: env where
  "example_env =
     \<lparr>api_key = ''secret'',
      upload_reply = (\<lambda>k. Inr \<lparr>status_code = 200, resp_text = [],
                                 resp_json = Inr (Some ''https://cdn.example/upload/1'')\<rparr>),
      submit_reply = Inr \<lparr>status_code = 200, resp_text = [], resp_json = Inr (Some ''t1'')\<rparr>,
      poll_reply = (\<lambda>k. Inr \<lparr>status_code = 200, resp_text = [],
                               resp_json = Inr example_result\<rparr>),
      generate_reply = (\<lambda>prompt. Inl (Exception ''model unavailable'')),
      str_words = (\<lambda>ws. [])\<rparr>"

section \<open>Properties\<close>

lemma floor_le_py_round: "\<lfloor>x\<rfloor> \<le> py_round x"
  by (simp add: py_round_def Let_def)

lemma py_round_ge_int: "of_int n \<le> x \<Longrightarrow> n \<le> py_round x"
  using floor_le_py_round [of x] by (meson le_floor_iff order_trans)

lemma collect_pauses_filter:
  "collect_pauses ws is acc =
     acc @ filter (\<lambda>g. 5 / 10 < g) (map (\<lambda>i. start (ws ! i) - end_sec (ws ! (i - 1))) is)"
  by (induction "is" arbitrary: acc) (simp_all add: Let_def PAUSE_THRESHOLD_def)

lemma gaps_shift:
  "map (\<lambda>i. start (ws ! i) - end_sec (ws ! (i - 1))) [1..<length ws] = gaps ws"
proof -
  have "[1..<length ws] = map Suc [0..<length ws - 1]"
    by (cases "length ws") (simp_all add: map_Suc_upt)
  then show ?thesis
    by (simp add: gaps_def gap_def comp_def)
qed

lemma collect_pauses_long_gaps: "collect_pauses ws [1..<length ws] [] = long_gaps ws"
  unfolding collect_pauses_filter gaps_shift long_gaps_def by simp

lemma sum_list_lower_bound:
  "(\<And>g. g \<in> set xs \<Longrightarrow> c \<le> g) \<Longrightarrow> c * of_nat (length xs) \<le> (sum_list xs :: real)"
proof (induction xs)
  case Nil
  then show ?case by simp
next
  case (Cons x xs)
  have "c \<le> x" using Cons.prems by simp
  moreover have "c * of_nat (length xs) \<le> sum_list xs"
    using Cons.IH Cons.prems by simp
  ultimately show ?case by (simp add: algebra_simps)
qed

lemma long_gaps_sum_bound: "5 / 10 * of_nat (length (long_gaps ws)) \<le> sum_list (long_gaps ws)"
  by (rule sum_list_lower_bound) (simp add: long_gaps_def)



subsection \<open>Pause analysis\<close>



text \<open>
  C10. Whatever the timings, overlapping or out of order, the pause metrics are never
  negative: only gaps above 0.5 s are counted and summed, so the count is at least 0 and
  the total pause time is at least 0.5 times the count.
\<close>
theorem analyze_pauses_nonnegative:
  "0 \<le> pause_count (analyze_pauses ws) \<and>
   (0::real) \<le> 5 / 10 * of_int (pause_count (analyze_pauses ws)) \<and>
   5 / 10 * of_int (pause_count (analyze_pauses ws)) \<le> total_pause_time_sec (analyze_pauses ws)"
proof (cases "length ws < 2")
  case True
  then show ?thesis by (simp add: analyze_pauses_def)
next
  case False
  let ?ps = "long_gaps ws"
  have cnt: "pause_count (analyze_pauses ws) = int (length ?ps)"
    unfolding analyze_pauses_def collect_pauses_long_gaps Let_def using False by simp
  have tot: "total_pause_time_sec (analyze_pauses ws) = of_int (py_round (sum_list ?ps * 100)) / 100"
    unfolding analyze_pauses_def collect_pauses_long_gaps Let_def
    using False by (simp add: py_round_ndigits_def)
  have "of_int (50 * int (length ?ps)) \<le> sum_list ?ps * 100"
    using long_gaps_sum_bound [of ws] by simp
  then have "50 * int (length ?ps) \<le> py_round (sum_list ?ps * 100)"
    by (rule py_round_ge_int)
  then have "(of_int (50 * int (length ?ps)) :: real) \<le> of_int (py_round (sum_list ?ps * 100))"
    by (simp only: of_int_le_iff)
  then have "5 / 10 * real (length ?ps) \<le> of_int (py_round (sum_list ?ps * 100)) / 100"
    by simp
  then show ?thesis
    by (simp add: cnt tot)
qed

subsection \<open>Pronunciation analysis\<close>



subsection \<open>Pacing analysis\<close>




lemma upload_file_files: "files (snd (upload_file e fp mt k w)) = files w"
  by (simp add: upload_file_def upload_file_try_def Let_def split: sum.splits prod.splits)







lemma retry_loop_files: "files (snd (retry_loop e fp mt as w)) = files w"
proof (induction as arbitrary: w)
  case Nil
  then show ?case by simp
next
  case (Cons a as)
  obtain r w' where u: "upload_file e fp mt a w = (r, w')" by (cases "upload_file e fp mt a w")
  then have f: "files w' = files w" using upload_file_files [of e fp mt a w] by simp
  show ?case
    using u f Cons.IH by (simp split: sum.splits exn.splits)
qed









subsection \<open>Upload with retry\<close>




lemma non_terminal_pending: "non_terminal reply \<Longrightarrow> poll_except (poll_try reply) = Pending"
  by (auto simp add: non_terminal_def poll_try_def split: sum.splits)

lemma completed_step:
  "reply = Inr r \<Longrightarrow> status_code r = 200 \<Longrightarrow> resp_json r = Inr result \<Longrightarrow>
   pr_status result = Some ''completed'' \<Longrightarrow> poll_except (poll_try reply) = Completed result"
  by (simp add: poll_try_def)

lemma poll_loop_pending:
  "(\<And>j. a \<le> j \<Longrightarrow> j < a + n \<Longrightarrow> non_terminal (poll_reply e j)) \<Longrightarrow>
   a + n \<le> max_attempts \<Longrightarrow>
   poll_loop e tid a w =
     poll_loop e tid (a + n) (w\<lparr>trace := trace w @ concat (replicate n [PollGet tid, Sleep 1])\<rparr>)"
proof (induction n arbitrary: a w)
  case 0
  then show ?case by simp
next
  case (Suc n)
  have "non_terminal (poll_reply e a)" using Suc.prems(1) [of a] by simp
  then have pend: "poll_except (poll_try (poll_reply e a)) = Pending"
    by (rule non_terminal_pending)
  have lt: "\<not> max_attempts \<le> a" using Suc.prems(2) by simp
  have "poll_loop e tid a w =
          poll_loop e tid (a + 1) (w\<lparr>trace := trace w @ [PollGet tid, Sleep 1]\<rparr>)"
    by (subst poll_loop.simps) (simp add: pend lt)
  also have "\<dots> = poll_loop e tid (a + 1 + n)
      (w\<lparr>trace := trace w @ [PollGet tid, Sleep 1] @ concat (replicate n [PollGet tid, Sleep 1])\<rparr>)"
    using Suc.IH [of "a + 1" "w\<lparr>trace := trace w @ [PollGet tid, Sleep 1]\<rparr>"] Suc.prems
    by simp
  finally show ?case by simp
qed

lemma poll_loop_requests:
  "length (filter is_poll (trace (snd (poll_loop e tid a w)))) \<le>
     length (filter is_poll (trace w)) + (max_attempts - a)"
proof (induction e tid a w rule: poll_loop.induct)
  case (1 e tid a w)
  show ?case
  proof (cases "max_attempts \<le> a")
    case True
    then show ?thesis by (subst poll_loop.simps) simp
  next
    case False
    show ?thesis
    proof (cases "poll_except (poll_try (poll_reply e a))")
      case (Completed result)
      then show ?thesis using False by (subst poll_loop.simps) simp
    next
      case Pending
      have "length (filter is_poll (trace (snd (poll_loop e tid (a + 1)
                (w\<lparr>trace := trace w @ [PollGet tid, Sleep 1]\<rparr>))))) \<le>
            length (filter is_poll (trace (w\<lparr>trace := trace w @ [PollGet tid, Sleep 1]\<rparr>)))
              + (max_attempts - (a + 1))"
        using "1.IH" [OF False Pending] .
      then show ?thesis using False Pending by (subst poll_loop.simps) simp
    next
      case (Raised err)
      then show ?thesis using False by (subst poll_loop.simps) simp
    qed
  qed
qed

subsection \<open>Polling\<close>

text \<open>
  C3. The poll loop issues at most 60 status requests. When the first 59 replies leave
  the transcript queued or processing and the 60th reports it completed, the loop returns
  the provider's result, having slept one second after each of the 59. When 60 replies in
  a row leave it pending, the loop ends with the transcription-timeout error after 60
  requests, each followed by a sleep of one second, and sends no 61st.
\<close>
theorem poll_transcript_budget:
  "length (filter is_poll (trace (snd (poll_transcript e tid w)))) \<le>
     length (filter is_poll (trace w)) + 60 \<and>
   ((\<forall>j<59. non_terminal (poll_reply e j)) \<and>
    poll_reply e 59 = Inr r \<and> status_code r = 200 \<and> resp_json r = Inr result \<and>
    pr_status result = Some ''completed'' \<longrightarrow>
      poll_transcript e tid w =
        (Inr result,
         w\<lparr>trace := trace w @ concat (replicate 59 [PollGet tid, Sleep 1]) @ [PollGet tid]\<rparr>)) \<and>
   ((\<forall>j<60. non_terminal (poll_reply e j)) \<longrightarrow>
      poll_transcript e tid w =
        (Inl (Exception ''Transcription timeout - process took too long''),
         w\<lparr>trace := trace w @ concat (replicate 60 [PollGet tid, Sleep 1])\<rparr>))"
proof (intro conjI impI)
  show "length (filter is_poll (trace (snd (poll_transcript e tid w)))) \<le>
          length (filter is_poll (trace w)) + 60"
    using poll_loop_requests [of e tid 0 w] by (simp add: poll_transcript_def max_attempts_def)
next
  assume a: "(\<forall>j<59. non_terminal (poll_reply e j)) \<and>
    poll_reply e 59 = Inr r \<and> status_code r = 200 \<and> resp_json r = Inr result \<and>
    pr_status result = Some ''completed''"
  let ?w = "w\<lparr>trace := trace w @ concat (replicate 59 [PollGet tid, Sleep 1])\<rparr>"
  have "poll_loop e tid 0 w = poll_loop e tid (0 + 59) ?w"
    using a by (intro poll_loop_pending) (simp_all add: max_attempts_def)
  moreover have "poll_except (poll_try (poll_reply e 59)) = Completed result"
    using a completed_step [of "poll_reply e 59" r result] by blast
  then have "poll_loop e tid 59 ?w = (Inr result, ?w\<lparr>trace := trace ?w @ [PollGet tid]\<rparr>)"
    by (subst poll_loop.simps) (simp add: max_attempts_def)
  ultimately show "poll_transcript e tid w =
        (Inr result,
         w\<lparr>trace := trace w @ concat (replicate 59 [PollGet tid, Sleep 1]) @ [PollGet tid]\<rparr>)"
    by (simp add: poll_transcript_def)
next
  assume a: "\<forall>j<60. non_terminal (poll_reply e j)"
  let ?w = "w\<lparr>trace := trace w @ concat (replicate 60 [PollGet tid, Sleep 1])\<rparr>"
  have "poll_loop e tid 0 w = poll_loop e tid (0 + 60) ?w"
    using a by (intro poll_loop_pending) (simp_all add: max_attempts_def)
  moreover have "poll_loop e tid 60 ?w =
      (Inl (Exception ''Transcription timeout - process took too long''), ?w)"
    by (subst poll_loop.simps) (simp add: max_attempts_def)
  ultimately show "poll_transcript e tid w =
        (Inl (Exception ''Transcription timeout - process took too long''),
         w\<lparr>trace := trace w @ concat (replicate 60 [PollGet tid, Sleep 1])\<rparr>)"
    by (simp add: poll_transcript_def)
qed

theorem poll_transcript_budget_witness:
  "poll_transcript
     (example_env\<lparr>poll_reply :=
        (\<lambda>k. if k < 59
             then Inr \<lparr>status_code = 200, resp_text = [],
                       resp_json = Inr (example_result\<lparr>pr_status := Some ''processing''\<rparr>)\<rparr>
             else Inr \<lparr>status_code = 200, resp_text = [], resp_json = Inr example_result\<rparr>)\<rparr>)
     ''t1'' example_world =
     (Inr example_result,
      example_world\<lparr>trace := trace example_world @
         concat (replicate 59 [PollGet ''t1'', Sleep 1]) @ [PollGet ''t1'']\<rparr>) \<and>
   poll_transcript
     (example_env\<lparr>poll_reply :=
        (\<lambda>k. Inr \<lparr>status_code = 200, resp_text = [],
                  resp_json = Inr (example_result\<lparr>pr_status := Some ''queued''\<rparr>)\<rparr>)\<rparr>)
     ''t1'' example_world =
     (Inl (Exception ''Transcription timeout - process took too long''),
      example_world\<lparr>trace := trace example_world @
         concat (replicate 60 [PollGet ''t1'', Sleep 1])\<rparr>)"
proof -
  let ?e1 = "example_env\<lparr>poll_reply :=
        (\<lambda>k. if k < 59
             then Inr \<lparr>status_code = 200, resp_text = [],
                       resp_json = Inr (example_result\<lparr>pr_status := Some ''processing''\<rparr>)\<rparr>
             else Inr \<lparr>status_code = 200, resp_text = [], resp_json = Inr example_result\<rparr>)\<rparr>"
  let ?e2 = "example_env\<lparr>poll_reply :=
        (\<lambda>k. Inr \<lparr>status_code = 200, resp_text = [],
                  resp_json = Inr (example_result\<lparr>pr_status := Some ''queued''\<rparr>)\<rparr>)\<rparr>"
  have p1: "\<forall>j<59. non_terminal (poll_reply ?e1 j)" by (simp add: non_terminal_def)
  have c1: "poll_reply ?e1 59 =
              Inr \<lparr>status_code = 200, resp_text = [], resp_json = Inr example_result\<rparr>"
    by simp
  have s1: "pr_status example_result = Some ''completed''" by (simp add: example_result_def)
  have p2: "\<forall>j<60. non_terminal (poll_reply ?e2 j)" by (simp add: non_terminal_def)
  show ?thesis
    using poll_transcript_budget
            [of ?e1 "''t1''" example_world
                "\<lparr>status_code = 200, resp_text = [], resp_json = Inr example_result\<rparr>"
                example_result]
          poll_transcript_budget [of ?e2 "''t1''" example_world] p1 c1 s1 p2
    by simp
qed

lemma poll_loop_files: "files (snd (poll_loop e tid a w)) = files w"
proof (induction e tid a w rule: poll_loop.induct)
  case (1 e tid a w)
  show ?case
  proof (cases "max_attempts \<le> a")
    case True
    then show ?thesis by (subst poll_loop.simps) simp
  next
    case False
    show ?thesis
    proof (cases "poll_except (poll_try (poll_reply e a))")
      case (Completed result)
      then show ?thesis using False by (subst poll_loop.simps) simp
    next
      case Pending
      then show ?thesis using False "1.IH" [OF False Pending] by (subst poll_loop.simps) simp
    next
      case (Raised err)
      then show ?thesis using False by (subst poll_loop.simps) simp
    qed
  qed
qed

subsection \<open>Media type of the upload\<close>

text \<open>
  C1. The override table has an entry for the extension of \<open>uploads/a.wav\<close>,
  \<open>audio/wav\<close>. Uploading that file with the caller's guess \<open>audio/x-wav\<close> logs
  that the guess is overridden by \<open>audio/wav\<close>, and the file part of the request that
  is sent carries the guess \<open>audio/x-wav\<close>, not the table's entry.
\<close>
theorem upload_file_sends_guessed_type:
  "audio_mime_types (py_lower (splitext_ext ''uploads/a.wav'')) = Some ''audio/wav'' \<and>
   upload_file example_env ''uploads/a.wav'' ''audio/x-wav'' 0 example_world =
     (Inr ''https://cdn.example/upload/1'',
      \<lparr>files = {''uploads/a.wav''},
       trace = [UploadPost ''a.wav'' ''audio/x-wav''],
       logged = [''Overriding guessed MIME type audio/x-wav with audio/wav for extension .wav'']\<rparr>)"
  by code_simp


lemma parse_words_complete:
  "parse_words
     (map (\<lambda>(tx, s, en, c).
            \<lparr>pw_text = Some tx, pw_start = Some s, pw_end = Some en, pw_confidence = Some c\<rparr>) raw)
     acc =
   Inr (acc @ map (\<lambda>(tx, s, en, c).
                    \<lparr>word = tx, start = s / 1000, end_sec = en / 1000, confidence = c\<rparr>) raw)"
  by (induction raw arbitrary: acc) (simp_all add: case_prod_beta)

subsection \<open>Transcript normalisation\<close>

text \<open>
  C8. For a provider result with its text and with words that each have their four keys,
  \<open>parse_transcription_result\<close> maps every word's \<open>text\<close>, \<open>start\<close>, \<open>end\<close> and
  \<open>confidence\<close> to \<open>word\<close>, \<open>start\<close>, \<open>end\<close> and \<open>confidence\<close>, dividing start and end
  by 1000, and the duration is the provider's divided by 1000, or 0 when the result has
  no duration: no error is raised for the missing key.
\<close>
theorem parse_transcription_result_spec:
  assumes "pr_text result = Some t"
    and "pr_words result =
           Some (map (\<lambda>(tx, s, en, c).
                   \<lparr>pw_text = Some tx, pw_start = Some s, pw_end = Some en, pw_confidence = Some c\<rparr>)
                 raw)"
  shows "parse_transcription_result result =
           Inr \<lparr>transcript = t,
                words = map (\<lambda>(tx, s, en, c).
                          \<lparr>word = tx, start = s / 1000, end_sec = en / 1000, confidence = c\<rparr>) raw,
                audio_duration_sec =
                  (case pr_audio_duration result of None \<Rightarrow> 0 | Some d \<Rightarrow> d / 1000)\<rparr>"
  using assms
  by (simp add: parse_transcription_result_def parse_words_complete split: option.splits)

theorem parse_transcription_result_spec_witness:
  "parse_transcription_result
     \<lparr>pr_status = Some ''completed'', pr_error = None, pr_text = Some ''a b'',
      pr_words = Some [\<lparr>pw_text = Some ''a'', pw_start = Some 0, pw_end = Some 300,
                        pw_confidence = Some (9 / 10)\<rparr>,
                       \<lparr>pw_text = Some ''b'', pw_start = Some 900, pw_end = Some 1200,
                        pw_confidence = Some (6 / 10)\<rparr>],
      pr_audio_duration = None\<rparr> =
   Inr \<lparr>transcript = ''a b'',
        words = [\<lparr>word = ''a'', start = 0, end_sec = 3 / 10, confidence = 9 / 10\<rparr>,
                 \<lparr>word = ''b'', start = 9 / 10, end_sec = 12 / 10, confidence = 6 / 10\<rparr>],
        audio_duration_sec = 0\<rparr>"
  using parse_transcription_result_spec
    [of "\<lparr>pr_status = Some ''completed'', pr_error = None, pr_text = Some ''a b'',
      pr_words = Some [\<lparr>pw_text = Some ''a'', pw_start = Some 0, pw_end = Some 300,
                        pw_confidence = Some (9 / 10)\<rparr>,
                       \<lparr>pw_text = Some ''b'', pw_start = Some 900, pw_end = Some 1200,
                        pw_confidence = Some (6 / 10)\<rparr>],
      pr_audio_duration = None\<rparr>" "''a b''" "[(''a'', 0, 300, 9 / 10), (''b'', 900, 1200, 6 / 10)]"]
  by simp

lemma files_cleanup: "files (cleanup file_path w) = files w - {file_path}"
  by (simp add: cleanup_def)

lemma upload_file_with_retry_files:
  "upload_file_with_retry e fp mt w = (r, w') \<Longrightarrow> files w' = files w"
  using retry_loop_files [of e fp mt "[0..<max_retries]" w]
  by (simp add: upload_file_with_retry_def)

lemma transcribe_audio_try_files: "files (snd (transcribe_audio_try e url w)) = files w"
  by (simp add: transcribe_audio_try_def poll_transcript_def poll_loop_files Let_def
      split: sum.splits option.splits)

lemma transcribe_audio_files: "transcribe_audio e url w = (r, w') \<Longrightarrow> files w' = files w"
  using transcribe_audio_try_files [of e url w]
  by (auto simp add: transcribe_audio_def split: if_splits prod.splits)

lemma generate_feedback_files:
  "generate_feedback e p q s w = (t, w') \<Longrightarrow> files w' = files w"
  by (auto simp add: generate_feedback_def Let_def split: sum.splits)


lemma process_audio_task_try_files:
  "files (snd (process_audio_task_try e fp fn mt w)) = files w"
proof -
  obtain r1 w1 where u: "upload_file_with_retry e fp mt w = (r1, w1)"
    by (cases "upload_file_with_retry e fp mt w")
  then have f1: "files w1 = files w" by (rule upload_file_with_retry_files)
  show ?thesis
  proof (cases r1)
    case (Inl err)
    then show ?thesis using u f1 by (simp add: process_audio_task_try_def)
  next
    case (Inr upload_url)
    obtain r2 w2 where tr: "transcribe_audio e upload_url w1 = (r2, w2)"
      by (cases "transcribe_audio e upload_url w1")
    then have f2: "files w2 = files w" using f1 transcribe_audio_files by metis
    have gen: "files w3 = files w" if "generate_feedback e p q s w2 = (t, w3)" for p q s t w3
      using generate_feedback_files [OF that] f2 by simp
    show ?thesis
      using u Inr tr f2
      by (auto simp add: process_audio_task_try_def Let_def split: sum.splits prod.splits
          dest: gen)
  qed
qed

subsection \<open>Cleanup of the audio file\<close>

text \<open>
  C7. Whatever the stages do, return or raise, the file of the job is not on disk when
  \<open>process_audio_task\<close> ends: the files left are those there were before, without the
  uploaded file.
\<close>
theorem process_audio_task_deletes_file:
  "files (snd (process_audio_task e file_path file_name mime_type w)) = files w - {file_path} \<and>
   file_path \<notin> files (snd (process_audio_task e file_path file_name mime_type w))"
proof -
  obtain r w' where t: "process_audio_task_try e file_path file_name mime_type w = (r, w')"
    by (cases "process_audio_task_try e file_path file_name mime_type w")
  then have "files w' = files w"
    using process_audio_task_try_files [of e file_path file_name mime_type w] by simp
  then show ?thesis
    using t by (cases r) (simp_all add: process_audio_task_def files_cleanup)
qed

subsection \<open>Feedback fallback\<close>

text \<open>
  C9. When the call of the generative model raises, or reading the text of its response
  does, \<open>generate_feedback\<close> returns the fixed fallback string; and a job whose upload,
  transcription, parsing and analyses succeed then still succeeds, its result carrying
  the fallback string as feedback.
\<close>
theorem generate_feedback_fallback:
  assumes "generate_reply e (feedback_prompt e pronunciation_result pacing_result pause_result)
             = Inl err
         \<or> generate_reply e (feedback_prompt e pronunciation_result pacing_result pause_result)
             = Inr (Inl err)"
  shows "fst (generate_feedback e pronunciation_result pacing_result pause_result w)
           = fallback_feedback \<and>
         (fst (upload_file_with_retry e file_path mime_type w0) = Inr upload_url \<and>
          fst (transcribe_audio e upload_url
                 (snd (upload_file_with_retry e file_path mime_type w0)))
            = Inr transcription_result \<and>
          parse_transcription_result transcription_result = Inr parsed_result \<and>
          analyze_pronunciation (words parsed_result) = Inr pronunciation_result \<and>
          analyze_pacing (words parsed_result) (audio_duration_sec parsed_result)
            = Inr pacing_result \<and>
          analyze_pauses (words parsed_result) = pause_result \<longrightarrow>
            fst (process_audio_task e file_path file_name mime_type w0) =
              Inr \<lparr>transcription = parsed_result,
                   pronunciation = pronunciation_result,
                   pacing = pacing_result,
                   pauses = pause_result,
                   text_feedback = fallback_feedback\<rparr>)"
proof -
  have fb: "fst (generate_feedback e pronunciation_result pacing_result pause_result v)
              = fallback_feedback" for v
    using assms by (auto simp add: generate_feedback_def Let_def)
  have "fst (process_audio_task e file_path file_name mime_type w0) =
              Inr \<lparr>transcription = parsed_result,
                   pronunciation = pronunciation_result,
                   pacing = pacing_result,
                   pauses = pause_result,
                   text_feedback = fallback_feedback\<rparr>"
    if a: "fst (upload_file_with_retry e file_path mime_type w0) = Inr upload_url"
      and b: "fst (transcribe_audio e upload_url
                 (snd (upload_file_with_retry e file_path mime_type w0)))
            = Inr transcription_result"
      and c: "parse_transcription_result transcription_result = Inr parsed_result"
      and d: "analyze_pronunciation (words parsed_result) = Inr pronunciation_result"
      and f: "analyze_pacing (words parsed_result) (audio_duration_sec parsed_result)
            = Inr pacing_result"
      and g: "analyze_pauses (words parsed_result) = pause_result"
  proof -
    obtain w1 where u: "upload_file_with_retry e file_path mime_type w0 = (Inr upload_url, w1)"
      using a by (cases "upload_file_with_retry e file_path mime_type w0") simp
    obtain w2 where tr: "transcribe_audio e upload_url w1 = (Inr transcription_result, w2)"
      using b u by (cases "transcribe_audio e upload_url w1") simp
    obtain t w3 where
      gen: "generate_feedback e pronunciation_result pacing_result pause_result w2 = (t, w3)"
      by (cases "generate_feedback e pronunciation_result pacing_result pause_result w2")
    then have "t = fallback_feedback" using fb [of w2] by simp
    then show ?thesis
      using u tr c d f g gen
      by (simp add: process_audio_task_def process_audio_task_try_def)
  qed
  then show ?thesis using fb by blast
qed

theorem generate_feedback_fallback_witness:
  "fst (generate_feedback example_env
          \<lparr>pronunciation_score = 75,
           mispronounced_words = [\<lparr>mw_word = ''b'', mw_start = 9 / 10, mw_confidence = 6 / 10\<rparr>]\<rparr>
          \<lparr>pacing_wpm = 100, pacing_feedback = ''Your speaking pace is appropriate.''\<rparr>
          \<lparr>pause_count = 1, total_pause_time_sec = 6 / 10,
           pause_feedback = ''Good fluency with minimal pauses.''\<rparr>
          example_world) = fallback_feedback \<and>
   fst (process_audio_task example_env ''uploads/a.wav'' ''a.wav'' ''audio/x-wav'' example_world) =
     Inr \<lparr>transcription =
            \<lparr>transcript = ''a b'',
             words = [\<lparr>word = ''a'', start = 0, end_sec = 3 / 10, confidence = 9 / 10\<rparr>,
                      \<lparr>word = ''b'', start = 9 / 10, end_sec = 12 / 10, confidence = 6 / 10\<rparr>],
             audio_duration_sec = 12 / 10\<rparr>,
          pronunciation =
            \<lparr>pronunciation_score = 75,
             mispronounced_words =
               [\<lparr>mw_word = ''b'', mw_start = 9 / 10, mw_confidence = 6 / 10\<rparr>]\<rparr>,
          pacing = \<lparr>pacing_wpm = 100, pacing_feedback = ''Your speaking pace is appropriate.''\<rparr>,
          pauses = \<lparr>pause_count = 1, total_pause_time_sec = 6 / 10,
                    pause_feedback = ''Good fluency with minimal pauses.''\<rparr>,
          text_feedback = fallback_feedback\<rparr>"
proof -
  let ?ws = "[\<lparr>word = ''a'', start = 0, end_sec = 3 / 10, confidence = 9 / 10\<rparr>,
              \<lparr>word = ''b'', start = 9 / 10, end_sec = 12 / 10, confidence = 6 / 10\<rparr>]"
  let ?parsed = "\<lparr>transcript = ''a b'', words = ?ws, audio_duration_sec = 12 / 10\<rparr>"
  let ?pron = "\<lparr>pronunciation_score = 75,
           mispronounced_words = [\<lparr>mw_word = ''b'', mw_start = 9 / 10, mw_confidence = 6 / 10\<rparr>]\<rparr>"
  let ?pac = "\<lparr>pacing_wpm = 100, pacing_feedback = ''Your speaking pace is appropriate.''\<rparr>"
  let ?pau = "\<lparr>pause_count = 1, total_pause_time_sec = 6 / 10,
           pause_feedback = ''Good fluency with minimal pauses.''\<rparr>"
  have gen: "generate_reply example_env (feedback_prompt example_env ?pron ?pac ?pau)
               = Inl (Exception ''model unavailable'')"
    unfolding example_env_def by simp
  have a: "fst (upload_file_with_retry example_env ''uploads/a.wav'' ''audio/x-wav'' example_world)
             = Inr (Some ''https://cdn.example/upload/1'')"
    by code_simp
  have b: "fst (transcribe_audio example_env (Some ''https://cdn.example/upload/1'')
                 (snd (upload_file_with_retry example_env ''uploads/a.wav'' ''audio/x-wav''
                         example_world)))
             = Inr example_result"
    by code_simp
  have c: "parse_transcription_result example_result = Inr ?parsed"
    by code_simp
  have d: "analyze_pronunciation (words ?parsed) = Inr ?pron"
    by code_simp
  have f: "analyze_pacing (words ?parsed) (audio_duration_sec ?parsed) = Inr ?pac"
    by code_simp
  have g: "analyze_pauses (words ?parsed) = ?pau"
    by code_simp
  note th = generate_feedback_fallback
      [OF disjI1 [OF gen],
       where w = example_world and ?w0.0 = example_world and file_path = "''uploads/a.wav''"
         and mime_type = "''audio/x-wav''" and upload_url = "Some ''https://cdn.example/upload/1''"
         and transcription_result = example_result and parsed_result = ?parsed
         and file_name = "''a.wav''"]
  have one: "fst (generate_feedback example_env ?pron ?pac ?pau example_world) = fallback_feedback"
    by (rule th [THEN conjunct1])
  have two: "fst (process_audio_task example_env ''uploads/a.wav'' ''a.wav'' ''audio/x-wav''
                    example_world) =
     Inr \<lparr>transcription = ?parsed, pronunciation = ?pron, pacing = ?pac, pauses = ?pau,
          text_feedback = fallback_feedback\<rparr>"
    by (rule th [THEN conjunct2, THEN mp]) (intro conjI a b c d f g)
  show ?thesis
    by (intro conjI one two)
qed

end
